theory Spec2Isabelle
  imports Complex_Main
begin

section \<open>The expression engine of cli-calculator.py\<close>

text \<open>
  The engine is the three functions \<^verbatim>\<open>tokenize\<close>, \<^verbatim>\<open>apply_operator\<close> and
  \<^verbatim>\<open>evaluate\<close> of \<^verbatim>\<open>src/cli-calculator.py\<close>. Tokens are plain strings, as in the
  source; the two stacks are Python lists that grow and shrink at the tail, so the top
  of a stack is \<open>last\<close> and a pop is \<open>butlast\<close>.

  Conventions of the model:
  \<^item> a Python \<^verbatim>\<open>str\<close> is a \<open>string\<close> whose characters are the code points below 256;
    in that range \<^verbatim>\<open>\d\<close> matches exactly the ten ASCII digits;
  \<^item> a Python \<^verbatim>\<open>float\<close> is a real number: rounding, infinities and NaN of IEEE-754
    are not represented; the one exception that overflow raises, the \<^verbatim>\<open>OverflowError\<close>
    of \<^verbatim>\<open>**\<close>, is;
  \<^item> \<^verbatim>\<open>**\<close> on a negative base and a fractional exponent returns a Python
    \<^verbatim>\<open>complex\<close>, so a value is either a float or a complex number;
  \<^item> an exception is a value \<open>Inl e\<close>; the three \<^verbatim>\<open>while\<close> loops over the operator
    stack are partial functions into \<open>option\<close>, where \<open>None\<close> stands for a loop that
    never ends.
\<close>

subsection \<open>Values and exceptions\<close>

datatype pyval = PyFloat real | PyComplex complex

datatype error = ValueError string | ZeroDivisionError | TypeError | OverflowError

type_synonym stacks = "string list \<times> pyval list"

definition bind_err :: "error + 'a \<Rightarrow> ('a \<Rightarrow> error + 'b) \<Rightarrow> error + 'b" where
  "bind_err r f = (case r of Inl e \<Rightarrow> Inl e | Inr x \<Rightarrow> f x)"

subsection \<open>The tokenizer\<close>

text \<open>
  \<^verbatim>\<open>pattern = r'(\d*\.\d+|\d+|[-+*/()^%]|sin|cos|tan|sqrt|log|ln|abs|pi|e)'\<close>.
  Python tries the alternatives from left to right at one position and takes the first
  that matches; inside an alternative \<^verbatim>\<open>\d*\<close> and \<^verbatim>\<open>\d+\<close> are greedy.
\<close>

definition is_digit :: "char \<Rightarrow> bool" where
  "is_digit c = (c \<in> set ''0123456789'')"

definition symbols :: "char list" where
  "symbols = ''-+*/()^%''"

definition keyword_names :: "string list" where
  "keyword_names = [''sin'', ''cos'', ''tan'', ''sqrt'', ''log'', ''ln'', ''abs'', ''pi'', ''e'']"

definition starts_with :: "string \<Rightarrow> string \<Rightarrow> bool" where
  "starts_with s k = (take (length k) s = k)"

definition match_decimal :: "string \<Rightarrow> string option" where
  \<comment> \<open>\<^verbatim>\<open>\d*\.\d+\<close>: no shorter choice of \<^verbatim>\<open>\d*\<close> can be followed by the dot\<close>
  "match_decimal s =
     (case dropWhile is_digit s of
        [] \<Rightarrow> None
      | c # r \<Rightarrow>
          if c = CHR ''.'' \<and> takeWhile is_digit r \<noteq> []
          then Some (takeWhile is_digit s @ c # takeWhile is_digit r)
          else None)"

definition match_integer :: "string \<Rightarrow> string option" where
  \<comment> \<open>\<^verbatim>\<open>\d+\<close>\<close>
  "match_integer s = (if takeWhile is_digit s \<noteq> [] then Some (takeWhile is_digit s) else None)"

definition match_symbol :: "string \<Rightarrow> string option" where
  \<comment> \<open>\<^verbatim>\<open>[-+*/()^%]\<close>\<close>
  "match_symbol s = (case s of [] \<Rightarrow> None | c # r \<Rightarrow> if c \<in> set symbols then Some [c] else None)"

definition match_keyword :: "string \<Rightarrow> string option" where
  \<comment> \<open>\<^verbatim>\<open>sin|cos|tan|sqrt|log|ln|abs|pi|e\<close>, the first keyword that is a prefix\<close>
  "match_keyword s = find (starts_with s) keyword_names"

definition match_token :: "string \<Rightarrow> string option" where
  "match_token s =
     (case match_decimal s of Some t \<Rightarrow> Some t
      | None \<Rightarrow> (case match_integer s of Some t \<Rightarrow> Some t
      | None \<Rightarrow> (case match_symbol s of Some t \<Rightarrow> Some t
      | None \<Rightarrow> match_keyword s)))"

text \<open>
  \<^verbatim>\<open>re.findall(pattern, expression)\<close>: scan from the left; where the pattern matches,
  emit the match and go on behind it; where it does not, go on one character later.
\<close>

function findall :: "string \<Rightarrow> string list" where
  "findall [] = []"
| "findall (c # cs) =
     (case match_token (c # cs) of
        None \<Rightarrow> findall cs
      | Some t \<Rightarrow> t # findall (drop (length t) (c # cs)))"
  by pat_completeness auto
termination
  by (relation "measure length")
    (auto simp: match_token_def match_decimal_def match_integer_def match_symbol_def
      match_keyword_def keyword_names_def find_Some_iff
      split: option.splits list.splits if_splits)

definition tokenize :: "string \<Rightarrow> string list" where
  "tokenize expression = findall (filter (\<lambda>c. c \<noteq> CHR '' '') expression)"

subsection \<open>Python's arithmetic on floats and complex numbers\<close>

text \<open>
  The operators and \<^verbatim>\<open>math\<close> functions that \<^verbatim>\<open>apply_operator\<close> calls, with the
  exceptions that Python itself raises: \<^verbatim>\<open>TypeError\<close> for a complex operand of a
  comparison, of \<^verbatim>\<open>%\<close> or of a \<^verbatim>\<open>math\<close> function, \<^verbatim>\<open>ZeroDivisionError\<close> for a zero
  divisor and for zero raised to a negative power, \<^verbatim>\<open>OverflowError\<close> for a power whose
  result is out of the range of a float, \<^verbatim>\<open>ValueError\<close> for an argument outside the
  domain of a \<^verbatim>\<open>math\<close> function. Of the operators only \<^verbatim>\<open>**\<close> raises on overflow;
  the others return an infinity, which the model does not represent.
\<close>

definition as_complex :: "pyval \<Rightarrow> complex" where
  "as_complex v = (case v of PyFloat x \<Rightarrow> complex_of_real x | PyComplex z \<Rightarrow> z)"

definition py_add :: "pyval \<Rightarrow> pyval \<Rightarrow> pyval" where
  "py_add l r = (case (l, r) of (PyFloat a, PyFloat b) \<Rightarrow> PyFloat (a + b)
                 | _ \<Rightarrow> PyComplex (as_complex l + as_complex r))"

definition py_sub :: "pyval \<Rightarrow> pyval \<Rightarrow> pyval" where
  "py_sub l r = (case (l, r) of (PyFloat a, PyFloat b) \<Rightarrow> PyFloat (a - b)
                 | _ \<Rightarrow> PyComplex (as_complex l - as_complex r))"

definition py_mul :: "pyval \<Rightarrow> pyval \<Rightarrow> pyval" where
  "py_mul l r = (case (l, r) of (PyFloat a, PyFloat b) \<Rightarrow> PyFloat (a * b)
                 | _ \<Rightarrow> PyComplex (as_complex l * as_complex r))"

definition py_eq0 :: "pyval \<Rightarrow> bool" where
  \<comment> \<open>\<^verbatim>\<open>v == 0\<close>\<close>
  "py_eq0 v = (case v of PyFloat x \<Rightarrow> x = 0 | PyComplex z \<Rightarrow> z = 0)"

definition py_lt0 :: "pyval \<Rightarrow> error + bool" where
  \<comment> \<open>\<^verbatim>\<open>v < 0\<close>; a complex number is not ordered\<close>
  "py_lt0 v = (case v of PyFloat x \<Rightarrow> Inr (x < 0) | PyComplex z \<Rightarrow> Inl TypeError)"

definition py_le0 :: "pyval \<Rightarrow> error + bool" where
  \<comment> \<open>\<^verbatim>\<open>v <= 0\<close>\<close>
  "py_le0 v = (case v of PyFloat x \<Rightarrow> Inr (x \<le> 0) | PyComplex z \<Rightarrow> Inl TypeError)"

definition py_truediv :: "pyval \<Rightarrow> pyval \<Rightarrow> error + pyval" where
  "py_truediv l r =
     (if py_eq0 r then Inl ZeroDivisionError
      else case (l, r) of (PyFloat a, PyFloat b) \<Rightarrow> Inr (PyFloat (a / b))
           | _ \<Rightarrow> Inr (PyComplex (as_complex l / as_complex r)))"

definition overflows :: "real \<Rightarrow> bool" where
  \<comment> \<open>the magnitude is out of the range of a double: it rounds to infinity\<close>
  "overflows x = (2 ^ 1024 - 2 ^ 970 \<le> \<bar>x\<bar>)"

definition complex_pow :: "complex \<Rightarrow> complex \<Rightarrow> error + pyval" where
  "complex_pow a b =
     (if b = 0 then Inr (PyComplex 1)
      else if a = 0 then
        (if Re b < 0 \<or> Im b \<noteq> 0 then Inl ZeroDivisionError else Inr (PyComplex 0))
      else
        let z = exp (b * Complex (ln (cmod a)) (Arg a)) in
        if overflows (Re z) \<or> overflows (Im z) then Inl OverflowError else Inr (PyComplex z))"

definition float_pow :: "real \<Rightarrow> real \<Rightarrow> error + pyval" where
  "float_pow a b =
     (if b = 0 then Inr (PyFloat 1)
      else if a = 0 then (if b < 0 then Inl ZeroDivisionError else Inr (PyFloat 0))
      else if a < 0 then
        (if b \<noteq> of_int \<lfloor>b\<rfloor> then complex_pow (complex_of_real a) (complex_of_real b)
         else if overflows ((- a) powr b) then Inl OverflowError
         else Inr (PyFloat ((if odd \<lfloor>b\<rfloor> then - 1 else 1) * ((- a) powr b))))
      else if overflows (a powr b) then Inl OverflowError
      else Inr (PyFloat (a powr b)))"

definition py_pow :: "pyval \<Rightarrow> pyval \<Rightarrow> error + pyval" where
  \<comment> \<open>\<^verbatim>\<open>l ** r\<close>\<close>
  "py_pow l r = (case (l, r) of (PyFloat a, PyFloat b) \<Rightarrow> float_pow a b
                 | _ \<Rightarrow> complex_pow (as_complex l) (as_complex r))"

definition py_mod :: "pyval \<Rightarrow> pyval \<Rightarrow> error + pyval" where
  \<comment> \<open>\<^verbatim>\<open>l % r\<close>: the float remainder has the sign of the divisor and raises
      \<^verbatim>\<open>ZeroDivisionError\<close> on a zero divisor; complex numbers have no remainder\<close>
  "py_mod l r =
     (case (l, r) of
        (PyFloat a, PyFloat b) \<Rightarrow>
          if b = 0 then Inl ZeroDivisionError else Inr (PyFloat (a - b * of_int \<lfloor>a / b\<rfloor>))
      | _ \<Rightarrow> Inl TypeError)"

definition py_abs :: "pyval \<Rightarrow> pyval" where
  "py_abs v = (case v of PyFloat x \<Rightarrow> PyFloat \<bar>x\<bar> | PyComplex z \<Rightarrow> PyFloat (cmod z))"

definition math_sin :: "pyval \<Rightarrow> error + pyval" where
  "math_sin v = (case v of PyFloat x \<Rightarrow> Inr (PyFloat (sin x)) | PyComplex z \<Rightarrow> Inl TypeError)"

definition math_cos :: "pyval \<Rightarrow> error + pyval" where
  "math_cos v = (case v of PyFloat x \<Rightarrow> Inr (PyFloat (cos x)) | PyComplex z \<Rightarrow> Inl TypeError)"

definition math_tan :: "pyval \<Rightarrow> error + pyval" where
  "math_tan v = (case v of PyFloat x \<Rightarrow> Inr (PyFloat (tan x)) | PyComplex z \<Rightarrow> Inl TypeError)"

definition math_sqrt :: "pyval \<Rightarrow> error + pyval" where
  "math_sqrt v =
     (case v of
        PyFloat x \<Rightarrow> if x < 0 then Inl (ValueError ''math domain error'') else Inr (PyFloat (sqrt x))
      | PyComplex z \<Rightarrow> Inl TypeError)"

definition math_log10 :: "pyval \<Rightarrow> error + pyval" where
  "math_log10 v =
     (case v of
        PyFloat x \<Rightarrow> if x \<le> 0 then Inl (ValueError ''math domain error'') else Inr (PyFloat (log 10 x))
      | PyComplex z \<Rightarrow> Inl TypeError)"

definition math_log :: "pyval \<Rightarrow> error + pyval" where
  "math_log v =
     (case v of
        PyFloat x \<Rightarrow> if x \<le> 0 then Inl (ValueError ''math domain error'') else Inr (PyFloat (ln x))
      | PyComplex z \<Rightarrow> Inl TypeError)"

subsection \<open>\<^verbatim>\<open>apply_operator\<close>\<close>

text \<open>
  Lines 24 to 88 of the source. The function mutates both lists; the model returns them.
  A call on an empty operator stack returns at once. After the pop the branches are, in
  the order of the source: the open parenthesis, the seven function names (one operand),
  the two constants (no operand), and the binary operators (two operands, the right
  one popped first). The last \<^verbatim>\<open>if\<close>/\<^verbatim>\<open>elif\<close> chain has no \<^verbatim>\<open>else\<close>: for any other
  string the two operands are popped and nothing is pushed.
\<close>

definition function_names :: "string list" where
  "function_names = [''sin'', ''cos'', ''tan'', ''sqrt'', ''log'', ''ln'', ''abs'']"

definition apply_operator :: "string list \<Rightarrow> pyval list \<Rightarrow> error + stacks" where
  "apply_operator operators vals =
     (if operators = [] then Inr (operators, vals)
      else
        let operator = last operators; operators = butlast operators in
        if operator = ''('' then Inr (operators, vals)
        else if operator \<in> set function_names then
          (if vals = [] then Inl (ValueError (''Not enough operands for '' @ operator))
           else
             let v = last vals; vals = butlast vals in
             if operator = ''sin'' then
               bind_err (math_sin v) (\<lambda>r. Inr (operators, vals @ [r]))
             else if operator = ''cos'' then
               bind_err (math_cos v) (\<lambda>r. Inr (operators, vals @ [r]))
             else if operator = ''tan'' then
               bind_err (math_tan v) (\<lambda>r. Inr (operators, vals @ [r]))
             else if operator = ''sqrt'' then
               bind_err (py_lt0 v) (\<lambda>neg.
                 if neg then Inl (ValueError ''Cannot take square root of negative number'')
                 else bind_err (math_sqrt v) (\<lambda>r. Inr (operators, vals @ [r])))
             else if operator = ''log'' then
               bind_err (py_le0 v) (\<lambda>nonpos.
                 if nonpos then Inl (ValueError ''Cannot take log of non-positive number'')
                 else bind_err (math_log10 v) (\<lambda>r. Inr (operators, vals @ [r])))
             else if operator = ''ln'' then
               bind_err (py_le0 v) (\<lambda>nonpos.
                 if nonpos then Inl (ValueError ''Cannot take natural log of non-positive number'')
                 else bind_err (math_log v) (\<lambda>r. Inr (operators, vals @ [r])))
             else if operator = ''abs'' then Inr (operators, vals @ [py_abs v])
             else Inr (operators, vals))
        else if operator = ''pi'' then Inr (operators, vals @ [PyFloat pi])
        else if operator = ''e'' then Inr (operators, vals @ [PyFloat (exp 1)])
        else if length vals < 2 then
          Inl (ValueError (''Not enough operands for operator: '' @ operator))
        else
          let right = last vals; vals = butlast vals;
              left = last vals; vals = butlast vals in
          if operator = ''+'' then Inr (operators, vals @ [py_add left right])
          else if operator = ''-'' then Inr (operators, vals @ [py_sub left right])
          else if operator = ''*'' then Inr (operators, vals @ [py_mul left right])
          else if operator = ''/'' then
            (if py_eq0 right then Inl (ValueError ''Division by zero'')
             else bind_err (py_truediv left right) (\<lambda>r. Inr (operators, vals @ [r])))
          else if operator = ''^'' then
            bind_err (py_pow left right) (\<lambda>r. Inr (operators, vals @ [r]))
          else if operator = ''%'' then
            bind_err (py_mod left right) (\<lambda>r. Inr (operators, vals @ [r]))
          else Inr (operators, vals))"

subsection \<open>\<^verbatim>\<open>evaluate\<close>\<close>

text \<open>
  Lines 91 to 146 of the source: \<^verbatim>\<open>lower\<close>, \<^verbatim>\<open>tokenize\<close>, the loop over the tokens, the
  final loop that applies what is left on the operator stack, and the test that one
  value is left.
\<close>

definition lower_char :: "char \<Rightarrow> char" where
  \<comment> \<open>\<^verbatim>\<open>str.lower\<close> on the code points below 256\<close>
  "lower_char c =
     (let n = (of_char c :: nat) in
      if (65 \<le> n \<and> n \<le> 90) \<or> (192 \<le> n \<and> n \<le> 222 \<and> n \<noteq> 215) then char_of (n + 32) else c)"

definition lower :: "string \<Rightarrow> string" where
  "lower s = map lower_char s"

definition precedence :: "string \<rightharpoonup> int" where
  "precedence =
     [''+'' \<mapsto> 1, ''-'' \<mapsto> 1, ''*'' \<mapsto> 2, ''/'' \<mapsto> 2, ''^'' \<mapsto> 3, ''%'' \<mapsto> 2]"

definition dict_get :: "('k \<rightharpoonup> 'v) \<Rightarrow> 'k \<Rightarrow> 'v \<Rightarrow> 'v" where
  \<comment> \<open>\<^verbatim>\<open>d.get(k, default)\<close>\<close>
  "dict_get d k dflt = (case d k of None \<Rightarrow> dflt | Some v \<Rightarrow> v)"

fun str_contains :: "string \<Rightarrow> string \<Rightarrow> bool" where
  \<comment> \<open>\<^verbatim>\<open>t in s\<close> on strings: \<open>t\<close> occurs in \<open>s\<close> as a contiguous substring\<close>
  "str_contains [] t = (t = [])"
| "str_contains (c # cs) t = (starts_with (c # cs) t \<or> str_contains cs t)"

definition is_number :: "string \<Rightarrow> bool" where
  \<comment> \<open>\<^verbatim>\<open>re.match(r'^(\d*\.\d+|\d+)$', token)\<close>; \<^verbatim>\<open>$\<close> also matches before a final newline\<close>
  "is_number token =
     (let full = (\<lambda>t. match_decimal t = Some t \<or> match_integer t = Some t) in
      full token \<or> (token \<noteq> [] \<and> last token = CHR 0x0A \<and> full (butlast token)))"

definition digit_value :: "char \<Rightarrow> nat" where
  "digit_value c = of_char c - 48"

definition digits_value :: "string \<Rightarrow> nat" where
  "digits_value ds = foldl (\<lambda>a c. 10 * a + digit_value c) 0 ds"

definition float_of :: "string \<Rightarrow> real" where
  \<comment> \<open>\<^verbatim>\<open>float(token)\<close> for a token that passed \<open>is_number\<close>\<close>
  "float_of token =
     (let t = (if token \<noteq> [] \<and> last token = CHR 0x0A then butlast token else token);
          ip = takeWhile (\<lambda>c. c \<noteq> CHR ''.'') t;
          fp = drop (Suc (length ip)) t
      in real (digits_value ip) + real (digits_value fp) / 10 ^ length fp)"

definition name_tokens :: "string list" where
  "name_tokens = [''sin'', ''cos'', ''tan'', ''sqrt'', ''log'', ''ln'', ''abs'', ''pi'', ''e'']"

text \<open>
  Lines 115 and 116: \<^verbatim>\<open>while operators and operators[-1] != '(': apply_operator(...)\<close>.
\<close>

partial_function (option) close_paren_loop ::
  "string list \<Rightarrow> pyval list \<Rightarrow> (error + stacks) option" where
  "close_paren_loop operators vals =
     (if operators \<noteq> [] \<and> last operators \<noteq> ''('' then
        (case apply_operator operators vals of
           Inl e \<Rightarrow> Some (Inl e)
         | Inr st \<Rightarrow> close_paren_loop (fst st) (snd st))
      else Some (Inr (operators, vals)))"

text \<open>
  Lines 127 to 130: the loop that applies the operators of at least the rank of the
  incoming token before the token is pushed.
\<close>

partial_function (option) operator_loop ::
  "string \<Rightarrow> string list \<Rightarrow> pyval list \<Rightarrow> (error + stacks) option" where
  "operator_loop token operators vals =
     (if operators \<noteq> [] \<and> last operators \<noteq> ''('' \<and>
         precedence (last operators) \<noteq> None \<and>
         dict_get precedence (last operators) 0 \<ge> dict_get precedence token 0 then
        (case apply_operator operators vals of
           Inl e \<Rightarrow> Some (Inl e)
         | Inr st \<Rightarrow> operator_loop token (fst st) (snd st))
      else Some (Inr (operators, vals)))"

text \<open>Lines 140 and 141: \<^verbatim>\<open>while operators: apply_operator(operators, values)\<close>.\<close>

partial_function (option) drain_loop ::
  "string list \<Rightarrow> pyval list \<Rightarrow> (error + stacks) option" where
  "drain_loop operators vals =
     (if operators \<noteq> [] then
        (case apply_operator operators vals of
           Inl e \<Rightarrow> Some (Inl e)
         | Inr st \<Rightarrow> drain_loop (fst st) (snd st))
      else Some (Inr (operators, vals)))"

definition eval_token :: "string \<Rightarrow> string list \<Rightarrow> pyval list \<Rightarrow> (error + stacks) option" where
  \<comment> \<open>the body of the loop over the tokens\<close>
  "eval_token token operators vals =
     (if is_number token then Some (Inr (operators, vals @ [PyFloat (float_of token)]))
      else if token \<in> set name_tokens then Some (Inr (operators @ [token], vals))
      else if token = ''('' then Some (Inr (operators @ [token], vals))
      else if token = '')'' then
        (case close_paren_loop operators vals of
           None \<Rightarrow> None
         | Some (Inl e) \<Rightarrow> Some (Inl e)
         | Some (Inr (operators, vals)) \<Rightarrow>
             if operators \<noteq> [] \<and> last operators = ''('' then
               let operators = butlast operators in
               if operators \<noteq> [] \<and> last operators \<in> set function_names
               then Some (apply_operator operators vals)
               else Some (Inr (operators, vals))
             else Some (Inl (ValueError ''Mismatched parentheses'')))
      else if str_contains ''+-*/^%'' token then
        (case operator_loop token operators vals of
           None \<Rightarrow> None
         | Some (Inl e) \<Rightarrow> Some (Inl e)
         | Some (Inr (operators, vals)) \<Rightarrow> Some (Inr (operators @ [token], vals)))
      else Some (Inl (ValueError (''Unknown token: '' @ token))))"

text \<open>Lines 102 to 137: \<^verbatim>\<open>while i < len(tokens)\<close>, one token per step.\<close>

fun eval_tokens :: "string list \<Rightarrow> string list \<Rightarrow> pyval list \<Rightarrow> (error + stacks) option" where
  "eval_tokens [] operators vals = Some (Inr (operators, vals))"
| "eval_tokens (token # rest) operators vals =
     (case eval_token token operators vals of
        None \<Rightarrow> None
      | Some (Inl e) \<Rightarrow> Some (Inl e)
      | Some (Inr (operators, vals)) \<Rightarrow> eval_tokens rest operators vals)"

definition evaluate :: "string \<Rightarrow> (error + pyval) option" where
  "evaluate expression =
     (let expression = lower expression;
          tokens = tokenize expression
      in case eval_tokens tokens [] [] of
           None \<Rightarrow> None
         | Some (Inl e) \<Rightarrow> Some (Inl e)
         | Some (Inr (operators, vals)) \<Rightarrow>
             (case drain_loop operators vals of
                None \<Rightarrow> None
              | Some (Inl e) \<Rightarrow> Some (Inl e)
              | Some (Inr (operators, vals)) \<Rightarrow>
                  if length vals \<noteq> 1 then Some (Inl (ValueError ''Invalid expression''))
                  else Some (Inr (vals ! 0))))"

subsection \<open>Notions used in the statements\<close>

text \<open>The operator-stack entries that \<^verbatim>\<open>apply_operator\<close> has a branch for.\<close>

definition known_operators :: "string list" where
  "known_operators = [''('', ''sin'', ''cos'', ''tan'', ''sqrt'', ''log'', ''ln'', ''abs'',
     ''pi'', ''e'', ''+'', ''-'', ''*'', ''/'', ''^'', ''%'']"

text \<open>The error of the last branch of \<^verbatim>\<open>evaluate\<close>: \<^verbatim>\<open>ValueError(f"Unknown token: {token}")\<close>.\<close>

definition unknown_token_error :: "error \<Rightarrow> bool" where
  "unknown_token_error e = (\<exists>t. e = ValueError (''Unknown token: '' @ t))"

text \<open>The tokens for which \<^verbatim>\<open>evaluate\<close> has a branch other than the last one.\<close>

definition handled :: "string \<Rightarrow> bool" where
  "handled token \<longleftrightarrow>
     is_number token \<or> token \<in> set name_tokens \<or> token = ''('' \<or> token = '')'' \<or>
     str_contains ''+-*/^%'' token"

text \<open>The tokens of the operator branch of \<^verbatim>\<open>evaluate\<close> that come from the tokenizer.\<close>

definition binary_operators :: "string list" where
  "binary_operators = [''+'', ''-'', ''*'', ''/'', ''^'', ''%'']"

text \<open>The error of the close-parenthesis branch of \<^verbatim>\<open>evaluate\<close>.\<close>

definition mismatched :: error where
  "mismatched = ValueError ''Mismatched parentheses''"


subsection \<open>The reading of an expression by the precedence table\<close>







subsection \<open>Notions used in the proofs\<close>




section \<open>Properties of the tokenizer\<close>

lemma match_keyword_mem:
  "match_keyword s = Some t \<Longrightarrow> t \<in> set keyword_names"
  unfolding match_keyword_def by (auto simp: find_Some_iff)

lemma not_digit_dot [simp]: "\<not> is_digit CHR ''.''"
  by (simp add: is_digit_def)

lemma match_decimal_self:
  assumes "match_decimal s = Some t"
  shows "match_decimal t = Some t"
proof -
  from assms obtain r where r: "dropWhile is_digit s = CHR ''.'' # r"
    and f: "takeWhile is_digit r \<noteq> []"
    and t: "t = takeWhile is_digit s @ CHR ''.'' # takeWhile is_digit r"
    by (auto simp: match_decimal_def split: list.splits if_splits)
  have digits: "\<And>x. x \<in> set (takeWhile is_digit s) \<Longrightarrow> is_digit x"
    by (auto dest: set_takeWhileD)
  have 1: "dropWhile is_digit t = CHR ''.'' # takeWhile is_digit r"
    unfolding t by (simp add: dropWhile_append2 digits)
  have 2: "takeWhile is_digit t = takeWhile is_digit s"
    unfolding t by (simp add: takeWhile_append2 digits)
  show ?thesis
    unfolding match_decimal_def 1 2 using f by (simp add: t)
qed

lemma match_integer_self:
  "match_integer s = Some t \<Longrightarrow> match_integer t = Some t"
  by (auto simp: match_integer_def split: if_splits dest: set_takeWhileD)

lemma match_token_class:
  assumes "match_token s = Some t"
  shows "is_number t \<or> (\<exists>c \<in> set symbols. t = [c]) \<or> t \<in> set keyword_names"
proof -
  from assms consider "match_decimal s = Some t" | "match_integer s = Some t"
    | "match_symbol s = Some t" | "match_keyword s = Some t"
    by (auto simp: match_token_def split: option.splits)
  then show ?thesis
  proof cases
    case 1
    then show ?thesis by (simp add: is_number_def match_decimal_self)
  next
    case 2
    then show ?thesis by (simp add: is_number_def match_integer_self)
  next
    case 3
    then show ?thesis by (auto simp: match_symbol_def split: list.splits if_splits)
  next
    case 4
    then show ?thesis by (simp add: match_keyword_mem)
  qed
qed

lemma findall_matched:
  "t \<in> set (findall s) \<Longrightarrow> \<exists>s'. match_token s' = Some t"
proof (induction s rule: findall.induct)
  case 1
  then show ?case by simp
next
  case (2 c cs)
  then show ?case by (cases "match_token (c # cs)") auto
qed

lemma tokenize_class:
  "t \<in> set (tokenize s) \<Longrightarrow> is_number t \<or> (\<exists>c \<in> set symbols. t = [c]) \<or> t \<in> set keyword_names"
  unfolding tokenize_def by (blast dest: findall_matched match_token_class)

lemma symbol_handled: "c \<in> set symbols \<Longrightarrow> handled [c]"
  by (auto simp: symbols_def handled_def starts_with_def)

lemma keyword_names_eq: "keyword_names = name_tokens"
  by (simp add: keyword_names_def name_tokens_def)

lemma tokenize_handled:
  assumes "t \<in> set (tokenize s)"
  shows "handled t"
proof -
  from tokenize_class [OF assms] consider "is_number t" | c where "c \<in> set symbols" "t = [c]"
    | "t \<in> set name_tokens"
    unfolding keyword_names_eq by blast
  then show ?thesis
  proof cases
    case 1
    then show ?thesis by (simp add: handled_def)
  next
    case 2
    then show ?thesis by (simp add: symbol_handled)
  next
    case 3
    then show ?thesis by (simp add: handled_def)
  qed
qed




section \<open>Evaluation on concrete inputs\<close>

lemmas tokenize_simps =
  tokenize_def match_token_def match_decimal_def match_integer_def match_symbol_def
  match_keyword_def keyword_names_def symbols_def is_digit_def starts_with_def

lemmas evaluate_simps =
  evaluate_def eval_token_def is_number_def float_of_def digits_value_def digit_value_def
  name_tokens_def function_names_def apply_operator_def precedence_def dict_get_def
  close_paren_loop.simps operator_loop.simps drain_loop.simps lower_def lower_char_def
  bind_err_def

lemmas python_simps =
  py_add_def py_sub_def py_mul_def py_truediv_def py_pow_def float_pow_def overflows_def
  py_mod_def
  py_eq0_def py_lt0_def py_le0_def py_abs_def math_sin_def math_cos_def math_tan_def
  math_sqrt_def math_log10_def math_log_def

lemma sqrt_16: "sqrt 16 = 4"
  using real_sqrt_abs [of 4] by simp

lemma butlast_snoc2: "butlast (xs @ [a, b]) = xs @ [a]"
  by (simp add: butlast_append)

section \<open>Properties of \<^verbatim>\<open>apply_operator\<close>\<close>

subsection \<open>Case analysis on the operator\<close>

lemma known_operators_iff: "x \<in> set known_operators \<longleftrightarrow> x = ''('' \<or> x = ''sin'' \<or> x = ''cos'' \<or> x = ''tan'' \<or> x = ''sqrt''
    \<or> x = ''log'' \<or> x = ''ln'' \<or> x = ''abs'' \<or> x = ''pi'' \<or> x = ''e''
    \<or> x = ''+'' \<or> x = ''-'' \<or> x = ''*'' \<or> x = ''/'' \<or> x = ''^'' \<or> x = ''%''"
    unfolding known_operators_def by simp

lemma operator_cases:
  obtains "x = ''(''" | "x = ''sin''" | "x = ''cos''" | "x = ''tan''" | "x = ''sqrt''"
  | "x = ''log''" | "x = ''ln''" | "x = ''abs''" | "x = ''pi''" | "x = ''e''"
  | "x = ''+''" | "x = ''-''" | "x = ''*''" | "x = ''/''" | "x = ''^''" | "x = ''%''"
  | "x \<notin> set known_operators"
proof (cases "x \<in> set known_operators")
  case True
  from this [unfolded known_operators_iff] show ?thesis
    by (elim disjE) (rule that; assumption)+
next
  case False
  then show ?thesis by (rule that(17))
qed

lemma binary_operators_iff:
  "x \<in> set binary_operators \<longleftrightarrow>
     x = ''+'' \<or> x = ''-'' \<or> x = ''*'' \<or> x = ''/'' \<or> x = ''^'' \<or> x = ''%''"
  by (simp add: binary_operators_def)

lemma bind_err_eq_Inl:
  "bind_err m f = Inl e \<longleftrightarrow> m = Inl e \<or> (\<exists>x. m = Inr x \<and> f x = Inl e)"
  by (cases m) (simp_all add: bind_err_def)

subsection \<open>The exceptions of Python's operators\<close>

lemma complex_pow_error:
  "complex_pow a b = Inl e \<Longrightarrow> e = ZeroDivisionError \<or> e = OverflowError"
  by (auto simp: complex_pow_def Let_def split: if_splits)

lemma float_pow_error:
  "float_pow a b = Inl e \<Longrightarrow> e = ZeroDivisionError \<or> e = OverflowError"
  by (auto simp: float_pow_def split: if_splits dest: complex_pow_error)

lemma py_pow_error:
  "py_pow l r = Inl e \<Longrightarrow> e = ZeroDivisionError \<or> e = OverflowError"
  by (auto simp: py_pow_def split: pyval.splits dest: complex_pow_error float_pow_error)

lemma py_mod_error: "py_mod l r = Inl e \<Longrightarrow> e = ZeroDivisionError \<or> e = TypeError"
  by (auto simp: py_mod_def split: pyval.splits if_splits)

lemma py_truediv_error: "py_truediv l r = Inl e \<Longrightarrow> e = ZeroDivisionError"
  by (auto simp: py_truediv_def split: pyval.splits if_splits)

lemma py_cmp_error: "py_lt0 v = Inl e \<Longrightarrow> e = TypeError" "py_le0 v = Inl e \<Longrightarrow> e = TypeError"
  by (auto simp: py_lt0_def py_le0_def split: pyval.splits)

lemma math_trig_error:
  "math_sin v = Inl e \<Longrightarrow> e = TypeError" "math_cos v = Inl e \<Longrightarrow> e = TypeError"
  "math_tan v = Inl e \<Longrightarrow> e = TypeError"
  by (auto simp: math_sin_def math_cos_def math_tan_def split: pyval.splits)

lemma math_domain_error:
  "math_sqrt v = Inl e \<Longrightarrow> e = TypeError \<or> e = ValueError ''math domain error''"
  "math_log10 v = Inl e \<Longrightarrow> e = TypeError \<or> e = ValueError ''math domain error''"
  "math_log v = Inl e \<Longrightarrow> e = TypeError \<or> e = ValueError ''math domain error''"
  by (auto simp: math_sqrt_def math_log10_def math_log_def split: pyval.splits if_splits)

lemmas python_errors =
  py_pow_error py_mod_error py_truediv_error py_cmp_error math_trig_error math_domain_error

lemma not_unknown_token_error [simp]:
  "\<not> unknown_token_error ZeroDivisionError"
  "\<not> unknown_token_error TypeError"
  "\<not> unknown_token_error OverflowError"
  "\<not> unknown_token_error (ValueError (CHR ''N'' # m))"
  "\<not> unknown_token_error (ValueError (CHR ''C'' # m))"
  "\<not> unknown_token_error (ValueError (CHR ''D'' # m))"
  "\<not> unknown_token_error (ValueError (CHR ''m'' # m))"
  "\<not> unknown_token_error (ValueError (CHR ''M'' # m))"
  "\<not> unknown_token_error (ValueError (CHR ''I'' # m))"
  by (simp_all add: unknown_token_error_def)

subsection \<open>What one application does\<close>

lemma apply_operator_shape:
  assumes "operators \<noteq> []"
  shows "case apply_operator operators vals of Inl e \<Rightarrow> True | Inr st \<Rightarrow> fst st = butlast operators"
  using assms
  by (cases "last operators" rule: operator_cases)
     (simp_all add: apply_operator_def Let_def bind_err_def function_names_def known_operators_def
        split: sum.split)

lemma apply_operator_pops:
  "operators \<noteq> [] \<Longrightarrow> apply_operator operators vals = Inr st \<Longrightarrow> fst st = butlast operators"
  using apply_operator_shape [of operators vals] by simp

lemma apply_operator_not_unknown:
  assumes "apply_operator operators vals = Inl e"
  shows "\<not> unknown_token_error e"
proof (cases "operators = []")
  case True
  with assms show ?thesis by (simp add: apply_operator_def)
next
  case False
  with assms show ?thesis
    by (cases "last operators" rule: operator_cases)
      (auto simp: apply_operator_def Let_def bind_err_eq_Inl function_names_def
        known_operators_def split: if_splits dest!: python_errors)
qed

lemma apply_operator_not_mismatched:
  assumes "apply_operator operators vals = Inl e"
  shows "e \<noteq> mismatched"
proof (cases "operators = []")
  case True
  with assms show ?thesis by (simp add: apply_operator_def)
next
  case False
  with assms show ?thesis
    unfolding mismatched_def
    by (cases "last operators" rule: operator_cases)
      (auto simp: apply_operator_def Let_def bind_err_eq_Inl function_names_def
        known_operators_def split: if_splits dest!: python_errors)
qed

lemma apply_operator_paren: "apply_operator (operators @ [''('']) vals = Inr (operators, vals)"
  by (simp add: apply_operator_def)

lemma apply_operator_prefix:
  assumes "operators \<noteq> []"
  shows "apply_operator (pre @ operators) vals =
           (case apply_operator operators vals of
              Inl e \<Rightarrow> Inl e
            | Inr st \<Rightarrow> Inr (pre @ fst st, snd st))"
  using assms
  by (cases "last operators" rule: operator_cases)
    (simp_all add: apply_operator_def Let_def bind_err_def function_names_def known_operators_def
      butlast_append split: sum.split)




lemma binary_operator_precedence:
  assumes "x \<in> set binary_operators"
  shows "x \<noteq> ''(''" and "precedence x \<noteq> None"
  using assms unfolding binary_operators_iff
  by (elim disjE; simp add: precedence_def)+

section \<open>The loops over the operator stack\<close>

text \<open>Total correctness of a loop that applies the top operator while a condition holds.\<close>

lemma apply_loop_rule:
  fixes loop :: "string list \<Rightarrow> pyval list \<Rightarrow> (error + stacks) option"
  assumes unfold: "\<And>ops vs. loop ops vs =
              (if cond ops then
                 (case apply_operator ops vs of
                    Inl e \<Rightarrow> Some (Inl e)
                  | Inr st \<Rightarrow> loop (fst st) (snd st))
               else Some (Inr (ops, vs)))"
    and nonempty: "\<And>ops. cond ops \<Longrightarrow> ops \<noteq> []"
    and stop: "\<And>ops vs. \<not> cond ops \<Longrightarrow> Q ops vs (Inr (ops, vs))"
    and err: "\<And>ops vs e. cond ops \<Longrightarrow> apply_operator ops vs = Inl e \<Longrightarrow> Q ops vs (Inl e)"
    and step: "\<And>ops vs vs' r. cond ops \<Longrightarrow> apply_operator ops vs = Inr (butlast ops, vs')
                \<Longrightarrow> Q (butlast ops) vs' r \<Longrightarrow> Q ops vs r"
  shows "\<exists>r. loop operators vals = Some r \<and> Q operators vals r"
proof (induction "length operators" arbitrary: operators vals rule: less_induct)
  case less
  show ?case
  proof (cases "cond operators")
    case False
    then have "loop operators vals = Some (Inr (operators, vals))"
      by (subst unfold) simp
    with False stop [of operators vals] show ?thesis by simp
  next
    case True
    then have ne: "operators \<noteq> []" by (rule nonempty)
    show ?thesis
    proof (cases "apply_operator operators vals")
      case (Inl e)
      with True have "loop operators vals = Some (Inl e)"
        by (subst unfold) simp
      with True Inl err [of operators vals e] show ?thesis by simp
    next
      case (Inr st)
      with ne have st: "fst st = butlast operators"
        by (simp add: apply_operator_pops)
      from True Inr have eq: "loop operators vals = loop (fst st) (snd st)"
        by (subst unfold) simp
      from ne st have "length (fst st) < length operators" by simp
      from less [OF this, of "snd st"] obtain r
        where r: "loop (fst st) (snd st) = Some r" "Q (fst st) (snd st) r" by blast
      from Inr st have "apply_operator operators vals = Inr (butlast operators, snd st)"
        by (cases st) simp
      with True step [of operators vals "snd st" r] r st have "Q operators vals r" by simp
      with eq r show ?thesis by simp
    qed
  qed
qed

lemmas close_paren_loop_rule =
  apply_loop_rule [where loop = close_paren_loop
      and cond = "\<lambda>ops. ops \<noteq> [] \<and> last ops \<noteq> ''(''", OF close_paren_loop.simps]

lemmas drain_loop_rule =
  apply_loop_rule [where loop = drain_loop and cond = "\<lambda>ops. ops \<noteq> []", OF drain_loop.simps]

lemmas operator_loop_rule =
  apply_loop_rule [where loop = "operator_loop token"
      and cond = "\<lambda>ops. ops \<noteq> [] \<and> last ops \<noteq> ''('' \<and> precedence (last ops) \<noteq> None \<and>
         dict_get precedence (last ops) 0 \<ge> dict_get precedence token 0", OF operator_loop.simps] for token

lemma close_paren_loop_total:
  "\<exists>r. close_paren_loop operators vals = Some r \<and> (\<forall>e. r = Inl e \<longrightarrow> \<not> unknown_token_error e)"
  by (rule close_paren_loop_rule) (simp_all add: apply_operator_not_unknown)

lemma operator_loop_total:
  "\<exists>r. operator_loop token operators vals = Some r \<and> (\<forall>e. r = Inl e \<longrightarrow> \<not> unknown_token_error e)"
  by (rule operator_loop_rule) (simp_all add: apply_operator_not_unknown)

lemma drain_loop_total:
  "\<exists>r. drain_loop operators vals = Some r \<and> (\<forall>e. r = Inl e \<longrightarrow> \<not> unknown_token_error e)"
  by (rule drain_loop_rule) (simp_all add: apply_operator_not_unknown)

lemma operator_loop_not_mismatched:
  "operator_loop token operators vals \<noteq> Some (Inl mismatched)"
proof -
  have "\<exists>r. operator_loop token operators vals = Some r \<and> r \<noteq> Inl mismatched"
    by (rule operator_loop_rule) (auto dest: apply_operator_not_mismatched)
  then show ?thesis by auto
qed

lemma drain_loop_not_mismatched:
  "drain_loop operators vals \<noteq> Some (Inl mismatched)"
proof -
  have "\<exists>r. drain_loop operators vals = Some r \<and> r \<noteq> Inl mismatched"
    by (rule drain_loop_rule) (auto dest: apply_operator_not_mismatched)
  then show ?thesis by auto
qed

subsection \<open>Unfolding the loops\<close>

lemma drain_loop_Nil: "drain_loop [] vals = Some (Inr ([], vals))"
  by (subst drain_loop.simps) simp

lemma drain_loop_snoc:
  "drain_loop (operators @ [x]) vals =
     (case apply_operator (operators @ [x]) vals of
        Inl e \<Rightarrow> Some (Inl e)
      | Inr st \<Rightarrow> drain_loop (fst st) (snd st))"
  by (subst drain_loop.simps) simp

lemma close_paren_loop_stop:
  "operators = [] \<or> last operators = ''('' \<Longrightarrow>
   close_paren_loop operators vals = Some (Inr (operators, vals))"
  by (subst close_paren_loop.simps) auto

lemma close_paren_loop_snoc:
  "x \<noteq> ''('' \<Longrightarrow>
   close_paren_loop (operators @ [x]) vals =
     (case apply_operator (operators @ [x]) vals of
        Inl e \<Rightarrow> Some (Inl e)
      | Inr st \<Rightarrow> close_paren_loop (fst st) (snd st))"
  by (subst close_paren_loop.simps) simp

lemma close_paren_loop_pending:
  assumes "''('' \<notin> set pending"
  shows "close_paren_loop (base @ ''('' # pending) vals =
           (case drain_loop pending vals of
              None \<Rightarrow> None
            | Some (Inl e) \<Rightarrow> Some (Inl e)
            | Some (Inr st) \<Rightarrow> Some (Inr (base @ [''(''], snd st)))"
  using assms
proof (induction pending arbitrary: vals rule: rev_induct)
  case Nil
  have "close_paren_loop (base @ [''('']) vals = Some (Inr (base @ [''(''], vals))"
    by (rule close_paren_loop_stop) simp
  then show ?case by (simp add: drain_loop_Nil)
next
  case (snoc x pending)
  then have x: "x \<noteq> ''(''" and p: "''('' \<notin> set pending" by auto
  have pops: "\<And>st. apply_operator [x] vals = Inr st \<Longrightarrow> fst st = []"
    using apply_operator_pops [of "[x]" vals] by simp
  have 1: "apply_operator ((base @ ''('' # pending) @ [x]) vals =
           (case apply_operator [x] vals of Inl e \<Rightarrow> Inl e | Inr st \<Rightarrow> Inr ((base @ ''('' # pending) @ fst st, snd st))"
    by (rule apply_operator_prefix) simp
  have 2: "apply_operator (pending @ [x]) vals =
           (case apply_operator [x] vals of Inl e \<Rightarrow> Inl e | Inr st \<Rightarrow> Inr (pending @ fst st, snd st))"
    by (rule apply_operator_prefix) simp
  show ?case
  proof (cases "apply_operator [x] vals")
    case (Inl e)
    with 1 2 x show ?thesis
      using close_paren_loop_snoc [of x "base @ ''('' # pending" vals]
      by (simp add: drain_loop_snoc)
  next
    case (Inr st)
    with pops have "fst st = []" by simp
    with Inr 1 2 x snoc.IH [OF p, of "snd st"] show ?thesis
      using close_paren_loop_snoc [of x "base @ ''('' # pending" vals]
      by (simp add: drain_loop_snoc)
  qed
qed



lemma operator_loop_push:
  assumes "\<not> dict_get precedence token 0 \<le> dict_get precedence x 0"
  shows "operator_loop token (operators @ [x]) vals = Some (Inr (operators @ [x], vals))"
  using assms by (subst operator_loop.simps) simp

section \<open>The scan of the tokens and \<^verbatim>\<open>evaluate\<close>\<close>

lemma not_number_close [simp]: "\<not> is_number '')''"
  by (simp add: is_number_def match_decimal_def match_integer_def is_digit_def)



lemma eval_token_total: "\<exists>r. eval_token token operators vals = Some r"
proof -
  obtain r1 where r1: "close_paren_loop operators vals = Some r1"
    using close_paren_loop_total by blast
  obtain r2 where r2: "operator_loop token operators vals = Some r2"
    using operator_loop_total by blast
  show ?thesis
    unfolding eval_token_def r1 r2 by (simp add: Let_def split: sum.split prod.split)
qed

lemma eval_token_not_unknown:
  assumes "handled token" and "eval_token token operators vals = Some (Inl e)"
  shows "\<not> unknown_token_error e"
proof -
  obtain r1 where r1: "close_paren_loop operators vals = Some r1"
    "\<And>e. r1 = Inl e \<Longrightarrow> \<not> unknown_token_error e"
    using close_paren_loop_total by blast
  obtain r2 where r2: "operator_loop token operators vals = Some r2"
    "\<And>e. r2 = Inl e \<Longrightarrow> \<not> unknown_token_error e"
    using operator_loop_total by blast
  from assms show ?thesis
    unfolding eval_token_def handled_def r1(1) r2(1)
    by (auto simp: Let_def split: if_splits sum.splits prod.splits
        dest: r1(2) r2(2) apply_operator_not_unknown)
qed

lemma eval_token_not_mismatched:
  assumes "token \<noteq> '')''"
  shows "eval_token token operators vals \<noteq> Some (Inl mismatched)"
proof -
  obtain r where r: "operator_loop token operators vals = Some r" "r \<noteq> Inl mismatched"
    using operator_loop_total [of token operators vals]
      operator_loop_not_mismatched [of token operators vals] by auto
  have u: "ValueError (''Unknown token: '' @ token) \<noteq> mismatched"
    by (simp add: mismatched_def)
  from assms r(2) u show ?thesis
    unfolding eval_token_def r(1)
    by (cases r) (auto split: prod.splits)
qed

lemma eval_tokens_total: "\<exists>r. eval_tokens tokens operators vals = Some r"
proof (induction tokens arbitrary: operators vals)
  case Nil
  show ?case by simp
next
  case (Cons token rest)
  obtain r where r: "eval_token token operators vals = Some r"
    using eval_token_total by blast
  show ?case
  proof (cases r)
    case (Inl e)
    with r show ?thesis by simp
  next
    case (Inr st)
    with r Cons [of "fst st" "snd st"] show ?thesis by (cases st) simp
  qed
qed

lemma eval_tokens_not_unknown:
  assumes "\<forall>t \<in> set tokens. handled t" and "eval_tokens tokens operators vals = Some (Inl e)"
  shows "\<not> unknown_token_error e"
  using assms
proof (induction tokens arbitrary: operators vals)
  case Nil
  then show ?case by simp
next
  case (Cons token rest)
  obtain r where r: "eval_token token operators vals = Some r"
    using eval_token_total by blast
  show ?case
  proof (cases r)
    case (Inl e')
    with r Cons.prems show ?thesis by (auto dest: eval_token_not_unknown)
  next
    case (Inr st)
    with r Cons.prems have "eval_tokens rest (fst st) (snd st) = Some (Inl e)"
      by (cases st) simp
    with Cons.IH Cons.prems show ?thesis by simp
  qed
qed

lemma eval_tokens_not_mismatched:
  assumes "'')'' \<notin> set tokens"
  shows "eval_tokens tokens operators vals \<noteq> Some (Inl mismatched)"
  using assms
proof (induction tokens arbitrary: operators vals)
  case Nil
  show ?case by simp
next
  case (Cons token rest)
  then have t: "token \<noteq> '')''" and rest: "'')'' \<notin> set rest" by auto
  obtain r where r: "eval_token token operators vals = Some r"
    using eval_token_total by blast
  with eval_token_not_mismatched [OF t, of operators vals] have ne: "r \<noteq> Inl mismatched"
    by simp
  show ?case
  proof (cases r)
    case (Inl e)
    with r ne show ?thesis by simp
  next
    case (Inr st)
    with r Cons.IH [OF rest, of "fst st" "snd st"] show ?thesis by (cases st) simp
  qed
qed

lemma evaluate_total: "\<exists>r. evaluate expression = Some r"
proof -
  obtain r1 where r1: "eval_tokens (tokenize (lower expression)) [] [] = Some r1"
    using eval_tokens_total by blast
  show ?thesis
  proof (cases r1)
    case (Inl e)
    with r1 show ?thesis by (simp add: evaluate_def)
  next
    case (Inr st)
    obtain r2 where r2: "drain_loop (fst st) (snd st) = Some r2"
      using drain_loop_total by blast
    with r1 Inr show ?thesis
      by (cases st; cases r2) (auto simp: evaluate_def split: prod.split)
  qed
qed

lemma evaluate_not_unknown:
  assumes "evaluate expression = Some (Inl e)"
  shows "\<not> unknown_token_error e"
proof -
  let ?ts = "tokenize (lower expression)"
  have h: "\<forall>t \<in> set ?ts. handled t" by (simp add: tokenize_handled)
  obtain r1 where r1: "eval_tokens ?ts [] [] = Some r1"
    using eval_tokens_total by blast
  show ?thesis
  proof (cases r1)
    case (Inl e')
    with r1 assms have "e' = e" by (simp add: evaluate_def)
    with Inl r1 h show ?thesis by (auto dest: eval_tokens_not_unknown)
  next
    case (Inr st)
    obtain r2 where r2: "drain_loop (fst st) (snd st) = Some r2"
      "\<And>e. r2 = Inl e \<Longrightarrow> \<not> unknown_token_error e"
      using drain_loop_total by blast
    with r1 Inr assms show ?thesis
      by (cases st; cases r2) (auto simp: evaluate_def split: prod.splits if_splits)
  qed
qed

lemma evaluate_not_mismatched:
  assumes "'')'' \<notin> set (tokenize (lower expression))"
  shows "evaluate expression \<noteq> Some (Inl mismatched)"
proof -
  let ?ts = "tokenize (lower expression)"
  obtain r1 where r1: "eval_tokens ?ts [] [] = Some r1"
    using eval_tokens_total by blast
  with eval_tokens_not_mismatched [OF assms, of "[]" "[]"] have ne: "r1 \<noteq> Inl mismatched"
    by simp
  show ?thesis
  proof (cases r1)
    case (Inl e)
    with r1 ne show ?thesis by (simp add: evaluate_def)
  next
    case (Inr st)
    obtain r2 where r2: "drain_loop (fst st) (snd st) = Some r2"
      using drain_loop_total by blast
    with drain_loop_not_mismatched [of "fst st" "snd st"] have "r2 \<noteq> Inl mismatched" by simp
    with r1 r2 Inr show ?thesis
      by (cases st; cases r2) (auto simp: evaluate_def mismatched_def split: prod.splits)
  qed
qed

section \<open>The evaluator computes the value of the precedence reading\<close>










lemma binary_not_paren: "x \<in> set binary_operators \<Longrightarrow> x \<noteq> ''(''"
  by (rule binary_operator_precedence)













section \<open>The claims\<close>

text \<open>
  C1, counterexample. The claim as stated fails: \<^verbatim>\<open>tokenize\<close> raises nothing, and the
  character \<^verbatim>\<open>&\<close> disappears from the token sequence.
\<close>

theorem tokenize_ampersand_counterexample:
  "tokenize ''1 & 2'' = [''1'', ''2'']"
  by (simp add: tokenize_simps)

text \<open>
  C1, amended. \<^verbatim>\<open>tokenize\<close> is \<^verbatim>\<open>re.findall\<close> on the input without its
  spaces: it returns the matches of the token pattern in order and never fails. A
  position where no alternative of the pattern matches is passed over in silence, and
  every token returned is a match of the pattern; \<^verbatim>\<open>tokenize("1 & 2")\<close> returns the
  tokens \<^verbatim>\<open>1\<close> and \<^verbatim>\<open>2\<close>, and \<^verbatim>\<open>evaluate("2 & + 3")\<close> returns 5.
\<close>

theorem tokenize_skips_unmatched:
  "(match_token (c # s) = None \<longrightarrow> findall (c # s) = findall s)
   \<and> (\<forall>t \<in> set (tokenize expression). \<exists>s'. match_token s' = Some t)
   \<and> tokenize ''1 & 2'' = [''1'', ''2'']
   \<and> evaluate ''2 & + 3'' = Some (Inr (PyFloat 5))"
proof (intro conjI impI ballI)
  assume "match_token (c # s) = None"
  then show "findall (c # s) = findall s" by simp
next
  fix t assume "t \<in> set (tokenize expression)"
  then show "\<exists>s'. match_token s' = Some t"
    unfolding tokenize_def by (rule findall_matched)
next
  show "tokenize ''1 & 2'' = [''1'', ''2'']"
    by (simp add: tokenize_simps)
next
  show "evaluate ''2 & + 3'' = Some (Inr (PyFloat 5))"
    by (simp add: tokenize_simps evaluate_simps python_simps)
qed

theorem tokenize_skips_unmatched_witness:
  "match_token ''&2'' = None \<and> findall ''&2'' = findall ''2''
   \<and> ''2'' \<in> set (tokenize ''1 & 2'') \<and> (\<exists>s'. match_token s' = Some ''2'')"
proof -
  have 1: "match_token ''&2'' = None" by (simp add: tokenize_simps)
  have 2: "''2'' \<in> set (tokenize ''1 & 2'')" by (simp add: tokenize_simps)
  note t = tokenize_skips_unmatched [of "CHR ''&''" "''2''" "''1 & 2''"]
  from t 1 have "findall ''&2'' = findall ''2''" by simp
  moreover from t 2 have "\<exists>s'. match_token s' = Some ''2''" by blast
  ultimately show ?thesis using 1 2 by simp
qed

text \<open>
  C2, counterexample. The claim as stated fails: the open parenthesis of \<^verbatim>\<open>(1 + 2\<close> is never
  closed, and \<^verbatim>\<open>evaluate\<close> returns 3.
\<close>

theorem unclosed_paren_counterexample:
  "evaluate ''(1 + 2'' = Some (Inr (PyFloat 3))"
  by (simp add: tokenize_simps evaluate_simps python_simps)

text \<open>
  C2, amended. An open parenthesis that is still on the operator stack at
  the end of the input is popped by the final loop without effect and without an
  error; \<^verbatim>\<open>Mismatched parentheses\<close> is raised only while a close parenthesis is
  processed, so an input without a close parenthesis never fails with it;
  \<^verbatim>\<open>evaluate("(1 + 2")\<close> returns 3.
\<close>

theorem unclosed_paren_discarded:
  "drain_loop (operators @ [''('']) vals = drain_loop operators vals
   \<and> drain_loop operators vals \<noteq> Some (Inl (ValueError ''Mismatched parentheses''))
   \<and> ('')'' \<notin> set (tokenize (lower expression)) \<longrightarrow>
        evaluate expression \<noteq> Some (Inl (ValueError ''Mismatched parentheses'')))
   \<and> evaluate ''(1 + 2'' = Some (Inr (PyFloat 3))"
proof (intro conjI impI)
  show "drain_loop (operators @ [''('']) vals = drain_loop operators vals"
    by (simp add: drain_loop_snoc apply_operator_paren)
  show "drain_loop operators vals \<noteq> Some (Inl (ValueError ''Mismatched parentheses''))"
    using drain_loop_not_mismatched [of operators vals] by (simp add: mismatched_def)
  show "evaluate ''(1 + 2'' = Some (Inr (PyFloat 3))"
    by (simp add: tokenize_simps evaluate_simps python_simps)
next
  assume "'')'' \<notin> set (tokenize (lower expression))"
  then show "evaluate expression \<noteq> Some (Inl (ValueError ''Mismatched parentheses''))"
    using evaluate_not_mismatched [of expression] by (simp add: mismatched_def)
qed

theorem unclosed_paren_discarded_witness:
  "'')'' \<notin> set (tokenize (lower ''(1 + 2''))
   \<and> evaluate ''(1 + 2'' \<noteq> Some (Inl (ValueError ''Mismatched parentheses''))"
proof -
  have 1: "'')'' \<notin> set (tokenize (lower ''(1 + 2''))"
    by (simp add: tokenize_simps lower_def lower_char_def)
  with unclosed_paren_discarded [of "[]" "[]" "''(1 + 2''"] show ?thesis by blast
qed

text \<open>
  C3 (the code departs from the claim). The claim: applying \<^verbatim>\<open>%\<close> with a right operand 0
  fails with a typed modulo-by-zero evaluation error, not an unguarded exception. In
  the code the branch for \<^verbatim>\<open>/\<close> tests \<^verbatim>\<open>right == 0\<close> and raises \<^verbatim>\<open>ValueError\<close>, the
  branch for \<^verbatim>\<open>%\<close> has no test: Python's own \<^verbatim>\<open>ZeroDivisionError\<close> leaves
  \<^verbatim>\<open>apply_operator\<close> and \<^verbatim>\<open>evaluate\<close>.
\<close>

theorem modulo_by_zero_unguarded:
  "apply_operator (operators @ [''%'']) (vals @ [PyFloat l, PyFloat 0]) = Inl ZeroDivisionError
   \<and> apply_operator (operators @ [''/'']) (vals @ [PyFloat l, PyFloat 0])
       = Inl (ValueError ''Division by zero'')
   \<and> evaluate ''5 % 0'' = Some (Inl ZeroDivisionError)
   \<and> evaluate ''5 / 0'' = Some (Inl (ValueError ''Division by zero''))"
  by (simp add: tokenize_simps evaluate_simps python_simps butlast_snoc2)







text \<open>
  C6. When \<^verbatim>\<open>)\<close> is processed and the operator stack is \<open>base\<close>, an open parenthesis
  and pending entries without a parenthesis, the pending entries are applied from the
  top down as the final loop of \<^verbatim>\<open>evaluate\<close> would apply them, the open parenthesis
  is popped, and if the entry then on top of the stack is a function name it is applied
  at once to the value stack that the pending entries left; \<^verbatim>\<open>evaluate("sqrt(16) + 1")\<close>
  is 5.
\<close>

theorem close_paren_applies_function:
  "(''('' \<notin> set pending \<longrightarrow>
      eval_token '')'' (base @ ''('' # pending) vals =
        (case drain_loop pending vals of
           None \<Rightarrow> None
         | Some (Inl e) \<Rightarrow> Some (Inl e)
         | Some (Inr st) \<Rightarrow>
             if base \<noteq> [] \<and> last base \<in> set function_names
             then Some (apply_operator base (snd st))
             else Some (Inr (base, snd st))))
   \<and> evaluate ''sqrt(16) + 1'' = Some (Inr (PyFloat 5))"
proof (intro conjI impI)
  assume "''('' \<notin> set pending"
  note loop = close_paren_loop_pending [OF this, of base vals]
  show "eval_token '')'' (base @ ''('' # pending) vals =
        (case drain_loop pending vals of
           None \<Rightarrow> None
         | Some (Inl e) \<Rightarrow> Some (Inl e)
         | Some (Inr st) \<Rightarrow>
             if base \<noteq> [] \<and> last base \<in> set function_names
             then Some (apply_operator base (snd st))
             else Some (Inr (base, snd st)))"
    unfolding eval_token_def loop
    by (simp add: name_tokens_def Let_def split: option.split sum.split)
next
  show "evaluate ''sqrt(16) + 1'' = Some (Inr (PyFloat 5))"
    by (simp add: tokenize_simps evaluate_simps python_simps sqrt_16)
qed

theorem close_paren_applies_function_witness:
  "''('' \<notin> set [''+'']
   \<and> drain_loop [''+''] [PyFloat 7, PyFloat 9] = Some (Inr ([], [PyFloat 16]))
   \<and> eval_token '')'' [''sqrt'', ''('', ''+''] [PyFloat 7, PyFloat 9] = Some (Inr ([], [PyFloat 4]))"
proof -
  have p: "''('' \<notin> set [''+'']" by simp
  have d: "drain_loop [''+''] [PyFloat 7, PyFloat 9] = Some (Inr ([], [PyFloat 16]))"
    by (simp add: evaluate_simps python_simps)
  have a: "apply_operator [''sqrt''] [PyFloat 16] = Inr ([], [PyFloat 4])"
    by (simp add: evaluate_simps python_simps sqrt_16)
  from close_paren_applies_function [of "[''+'']" "[''sqrt'']" "[PyFloat 7, PyFloat 9]"] p
  have "eval_token '')'' [''sqrt'', ''('', ''+''] [PyFloat 7, PyFloat 9] = Some (Inr ([], [PyFloat 4]))"
    by (simp add: d a function_names_def)
  with p d show ?thesis by simp
qed

text \<open>
  C7. The guards of \<^verbatim>\<open>apply_operator\<close>: \<^verbatim>\<open>sqrt\<close> of a float below 0, \<^verbatim>\<open>log\<close> and \<^verbatim>\<open>ln\<close>
  of a float that is 0 or below, and \<^verbatim>\<open>/\<close> with a right operand equal to 0 raise their
  \<^verbatim>\<open>ValueError\<close>; outside these cases \<^verbatim>\<open>sqrt\<close>, \<^verbatim>\<open>log\<close> and \<^verbatim>\<open>ln\<close> push their
  result, and \<^verbatim>\<open>sin\<close>, \<^verbatim>\<open>cos\<close>, \<^verbatim>\<open>tan\<close> and \<^verbatim>\<open>abs\<close> push a result for every real
  argument.
\<close>

theorem domain_guards:
  "(v < 0 \<longrightarrow> apply_operator (operators @ [''sqrt'']) (vals @ [PyFloat v])
        = Inl (ValueError ''Cannot take square root of negative number''))
   \<and> (v \<le> 0 \<longrightarrow> apply_operator (operators @ [''log'']) (vals @ [PyFloat v])
        = Inl (ValueError ''Cannot take log of non-positive number''))
   \<and> (v \<le> 0 \<longrightarrow> apply_operator (operators @ [''ln'']) (vals @ [PyFloat v])
        = Inl (ValueError ''Cannot take natural log of non-positive number''))
   \<and> (py_eq0 r \<longrightarrow> apply_operator (operators @ [''/'']) (vals @ [l, r])
        = Inl (ValueError ''Division by zero''))
   \<and> (0 \<le> v \<longrightarrow> apply_operator (operators @ [''sqrt'']) (vals @ [PyFloat v])
        = Inr (operators, vals @ [PyFloat (sqrt v)]))
   \<and> (0 < v \<longrightarrow> apply_operator (operators @ [''log'']) (vals @ [PyFloat v])
        = Inr (operators, vals @ [PyFloat (log 10 v)]))
   \<and> (0 < v \<longrightarrow> apply_operator (operators @ [''ln'']) (vals @ [PyFloat v])
        = Inr (operators, vals @ [PyFloat (ln v)]))
   \<and> apply_operator (operators @ [''sin'']) (vals @ [PyFloat v])
        = Inr (operators, vals @ [PyFloat (sin v)])
   \<and> apply_operator (operators @ [''cos'']) (vals @ [PyFloat v])
        = Inr (operators, vals @ [PyFloat (cos v)])
   \<and> apply_operator (operators @ [''tan'']) (vals @ [PyFloat v])
        = Inr (operators, vals @ [PyFloat (tan v)])
   \<and> apply_operator (operators @ [''abs'']) (vals @ [PyFloat v])
        = Inr (operators, vals @ [PyFloat \<bar>v\<bar>])
   \<and> evaluate ''sqrt(0 - 1)''
        = Some (Inl (ValueError ''Cannot take square root of negative number''))
   \<and> evaluate ''log(0)'' = Some (Inl (ValueError ''Cannot take log of non-positive number''))
   \<and> evaluate ''ln(0)''
        = Some (Inl (ValueError ''Cannot take natural log of non-positive number''))"
  by (simp add: tokenize_simps evaluate_simps python_simps butlast_snoc2)

theorem domain_guards_witness:
  "(- 1 :: real) < 0
   \<and> apply_operator [''sqrt''] [PyFloat (- 1)]
        = Inl (ValueError ''Cannot take square root of negative number'')
   \<and> (0 :: real) \<le> 0
   \<and> apply_operator [''log''] [PyFloat 0] = Inl (ValueError ''Cannot take log of non-positive number'')
   \<and> apply_operator [''ln''] [PyFloat 0]
        = Inl (ValueError ''Cannot take natural log of non-positive number'')
   \<and> py_eq0 (PyFloat 0)
   \<and> apply_operator [''/''] [PyFloat 5, PyFloat 0] = Inl (ValueError ''Division by zero'')
   \<and> (0 :: real) < 16
   \<and> apply_operator [''sqrt''] [PyFloat 16] = Inr ([], [PyFloat (sqrt 16)])
   \<and> apply_operator [''log''] [PyFloat 16] = Inr ([], [PyFloat (log 10 16)])
   \<and> apply_operator [''ln''] [PyFloat 16] = Inr ([], [PyFloat (ln 16)])"
proof -
  note neg = domain_guards [of "- 1" "[]" "[]" "PyFloat 0" "PyFloat 5"]
  note zero = domain_guards [of 0 "[]" "[]" "PyFloat 0" "PyFloat 5"]
  note pos = domain_guards [of 16 "[]" "[]" "PyFloat 0" "PyFloat 5"]
  have z: "py_eq0 (PyFloat 0)" by (simp add: py_eq0_def)
  from neg have 1: "apply_operator [''sqrt''] [PyFloat (- 1)]
        = Inl (ValueError ''Cannot take square root of negative number'')" by simp
  from zero have 2: "apply_operator [''log''] [PyFloat 0] = Inl (ValueError ''Cannot take log of non-positive number'')"
    "apply_operator [''ln''] [PyFloat 0]
        = Inl (ValueError ''Cannot take natural log of non-positive number'')" by simp_all
  from zero z have 3: "apply_operator [''/''] [PyFloat 5, PyFloat 0] = Inl (ValueError ''Division by zero'')"
    by simp
  from pos have 4: "apply_operator [''sqrt''] [PyFloat 16] = Inr ([], [PyFloat (sqrt 16)])"
    "apply_operator [''log''] [PyFloat 16] = Inr ([], [PyFloat (log 10 16)])"
    "apply_operator [''ln''] [PyFloat 16] = Inr ([], [PyFloat (ln 16)])" by simp_all
  from 1 2 3 4 z show ?thesis by simp
qed

text \<open>
  C8. For every input string, every token that \<^verbatim>\<open>tokenize\<close> produces is taken by one of
  the branches of \<^verbatim>\<open>evaluate\<close> for a number, a function or constant name, a parenthesis
  or a binary operator; the last branch, which raises \<^verbatim>\<open>Unknown token\<close>, is reached
  for no token of \<^verbatim>\<open>tokenize\<close>, and \<^verbatim>\<open>evaluate\<close> never ends with that error.
\<close>

theorem unknown_token_unreachable:
  "(\<forall>t \<in> set (tokenize s). handled t)
   \<and> (\<forall>t \<in> set (tokenize s). \<forall>operators vals.
        eval_token t operators vals \<noteq> Some (Inl (ValueError (''Unknown token: '' @ t))))
   \<and> (\<forall>t. evaluate s \<noteq> Some (Inl (ValueError (''Unknown token: '' @ t))))"
proof (intro conjI ballI allI)
  fix t assume "t \<in> set (tokenize s)"
  then show h: "handled t" by (rule tokenize_handled)
  fix operators vals
  show "eval_token t operators vals \<noteq> Some (Inl (ValueError (''Unknown token: '' @ t)))"
    using eval_token_not_unknown [OF h, of operators vals "ValueError (''Unknown token: '' @ t)"]
    unfolding unknown_token_error_def by blast
next
  fix t
  show "evaluate s \<noteq> Some (Inl (ValueError (''Unknown token: '' @ t)))"
    using evaluate_not_unknown [of s "ValueError (''Unknown token: '' @ t)"]
    unfolding unknown_token_error_def by blast
qed

theorem unknown_token_unreachable_witness:
  "''sqrt'' \<in> set (tokenize ''sqrt(4)'') \<and> handled ''sqrt''
   \<and> eval_token ''sqrt'' [] [] \<noteq> Some (Inl (ValueError ''Unknown token: sqrt''))
   \<and> evaluate ''sqrt(4)'' \<noteq> Some (Inl (ValueError ''Unknown token: sqrt''))"
proof -
  have m: "''sqrt'' \<in> set (tokenize ''sqrt(4)'')"
    by (simp add: tokenize_simps)
  note u = unknown_token_unreachable [of "''sqrt(4)''"]
  from u m have "handled ''sqrt''" by blast
  moreover from u m have "eval_token ''sqrt'' [] [] \<noteq> Some (Inl (ValueError (''Unknown token: '' @ ''sqrt'')))"
    by blast
  moreover from u have "evaluate ''sqrt(4)'' \<noteq> Some (Inl (ValueError (''Unknown token: '' @ ''sqrt'')))"
    by blast
  ultimately show ?thesis using m by simp
qed

text \<open>
  C9. \<^verbatim>\<open>evaluate\<close> returns on every input (a value or an exception): the scan of the
  tokens returns, each of the three loops over the operator stack returns, and an
  application of \<^verbatim>\<open>apply_operator\<close> to a non-empty operator stack that does not raise
  leaves the stack without its last entry.
\<close>

theorem evaluate_terminates:
  "(\<exists>r. evaluate expression = Some r)
   \<and> (\<exists>r. eval_tokens tokens operators vals = Some r)
   \<and> (\<exists>r. close_paren_loop operators vals = Some r)
   \<and> (\<exists>r. operator_loop token operators vals = Some r)
   \<and> (\<exists>r. drain_loop operators vals = Some r)
   \<and> (operators \<noteq> [] \<longrightarrow>
        (\<forall>st. apply_operator operators vals = Inr st \<longrightarrow> fst st = butlast operators))"
  using evaluate_total [of expression] eval_tokens_total [of tokens operators vals]
    close_paren_loop_total [of operators vals] operator_loop_total [of token operators vals]
    drain_loop_total [of operators vals] apply_operator_pops [of operators vals]
  by blast

theorem evaluate_terminates_witness:
  "[''+'', ''*''] \<noteq> []
   \<and> apply_operator [''+'', ''*''] [PyFloat 2, PyFloat 3, PyFloat 4] = Inr ([''+''], [PyFloat 2, PyFloat 12])
   \<and> fst ([''+''], [PyFloat 2, PyFloat 12]) = butlast [''+'', ''*'']
   \<and> (\<exists>r. evaluate ''2 + 3 * 4'' = Some r)
   \<and> (\<exists>r. drain_loop [''+'', ''*''] [PyFloat 2, PyFloat 3, PyFloat 4] = Some r)"
proof -
  have a: "apply_operator [''+'', ''*''] [PyFloat 2, PyFloat 3, PyFloat 4] = Inr ([''+''], [PyFloat 2, PyFloat 12])"
    by (simp add: evaluate_simps python_simps)
  note t = evaluate_terminates [of "''2 + 3 * 4''" "[]" "[''+'', ''*'']"
      "[PyFloat 2, PyFloat 3, PyFloat 4]" "''+''"]
  from t a have "fst ([''+''], [PyFloat 2, PyFloat 12]) = butlast [''+'', ''*'']" by blast
  with t a show ?thesis by blast
qed






end
